theory Spec2Isabelle
  imports Main "HOL-Library.AList"
begin

section \<open>Python values, errors and text helpers\<close>

text \<open>
  Text is modelled as \<open>string\<close>; a \<open>char\<close> is read as the code point of the same number
  (0 to 255). Python integers are \<open>int\<close>. An exception is a value of \<open>error\<close>, and a
  function that can raise returns \<open>error + 'a\<close>.
\<close>

datatype error = IndexError | KeyError | AttributeError | ValueError | OSError

datatype pyval = PInt int | PStr string

text \<open>An object is its attribute dictionary, in the order the attributes were first
  assigned; reading an attribute that was never assigned raises \<open>AttributeError\<close>.\<close>

type_synonym obj = "(string \<times> pyval) list"

definition getattr :: "obj \<Rightarrow> string \<Rightarrow> error + pyval" where
  "getattr self a = (case map_of self a of None \<Rightarrow> Inl AttributeError | Some v \<Rightarrow> Inr v)"

definition setattr :: "string \<Rightarrow> pyval \<Rightarrow> obj \<Rightarrow> obj" where
  "setattr a v self = AList.update a v self"

text \<open>\<open>xs[i]\<close> for a non-negative constant index.\<close>

definition py_index :: "'a list \<Rightarrow> nat \<Rightarrow> error + 'a" where
  "py_index xs i = (if i < length xs then Inr (xs ! i) else Inl IndexError)"

definition is_digit :: "char \<Rightarrow> bool" where
  "is_digit c = (c \<in> set ''0123456789'')"

text \<open>The characters \<open>\w\<close> matches below code point 256: letters, digits and the
  underscore of ASCII, and the alphanumeric characters of Latin-1.\<close>

definition is_word :: "char \<Rightarrow> bool" where
  "is_word c =
     (c \<in> set ''abcdefghijklmnopqrstuvwxyzABCDEFGHIJKLMNOPQRSTUVWXYZ0123456789_'' \<or>
      (of_char c :: nat) \<in> set [0xAA, 0xB2, 0xB3, 0xB5, 0xB9, 0xBA, 0xBC, 0xBD, 0xBE] \<or>
      (0xC0 \<le> (of_char c :: nat) \<and> (of_char c :: nat) \<noteq> 0xD7 \<and> (of_char c :: nat) \<noteq> 0xF7))"

text \<open>The characters \<open>str.split()\<close> treats as whitespace, below code point 256.\<close>

definition is_space :: "char \<Rightarrow> bool" where
  "is_space c = ((of_char c :: nat) \<in> set [0x09, 0x0A, 0x0B, 0x0C, 0x0D, 0x1C, 0x1D, 0x1E, 0x1F, 0x20, 0x85, 0xA0])"

text \<open>\<open>s.split()\<close>: the maximal runs of non-whitespace characters.\<close>

function py_split :: "string \<Rightarrow> string list" where
  "py_split s =
     (case dropWhile is_space s of
        [] \<Rightarrow> []
      | c # cs \<Rightarrow> takeWhile (\<lambda>x. \<not> is_space x) (c # cs) # py_split (dropWhile (\<lambda>x. \<not> is_space x) (c # cs)))"
  by pat_completeness auto
termination
proof (relation "measure length")
  show "wf (measure length)" by simp
next
  fix s :: string and c cs
  assume a: "dropWhile is_space s = c # cs"
  have nsp: "\<not> is_space c" using a by (metis hd_dropWhile list.sel(1) list.simps(3))
  have "length (dropWhile (\<lambda>x. \<not> is_space x) (c # cs)) \<le> length cs"
    using nsp by (simp add: length_dropWhile_le)
  also have "length cs < length (dropWhile is_space s)" using a by simp
  also have "\<dots> \<le> length s" by (rule length_dropWhile_le)
  finally show "(dropWhile (\<lambda>x. \<not> is_space x) (c # cs), s) \<in> measure length" by simp
qed

declare py_split.simps [simp del]

text \<open>\<open>s.split(sep)\<close> for a one-character separator: every separator splits, empty
  pieces are kept.\<close>

fun split_on :: "char \<Rightarrow> string \<Rightarrow> string list" where
  "split_on sep [] = [[]]"
| "split_on sep (c # cs) =
     (if c = sep then [] # split_on sep cs
      else (case split_on sep cs of [] \<Rightarrow> [[c]] | p # ps \<Rightarrow> (c # p) # ps))"

text \<open>\<open>s.strip(chars)\<close>.\<close>

definition py_strip :: "string \<Rightarrow> string \<Rightarrow> string" where
  "py_strip chars s =
     rev (dropWhile (\<lambda>c. c \<in> set chars) (rev (dropWhile (\<lambda>c. c \<in> set chars) s)))"

text \<open>\<open>int(s)\<close> on a non-empty run of decimal digits, the only strings the code passes
  to it (every token it converts was matched by \<open>\d+\<close>); any other string is reported
  as \<open>ValueError\<close>. The bound that recent interpreters put on the number of digits
  \<open>int\<close> converts is not modelled.\<close>

definition digit_val :: "char \<Rightarrow> int" where
  "digit_val c = int (of_char c) - 48"

definition dec_val :: "string \<Rightarrow> int" where
  "dec_val s = foldl (\<lambda>a c. a * 10 + digit_val c) 0 s"

definition is_digits :: "string \<Rightarrow> bool" where
  "is_digits s = (s \<noteq> [] \<and> list_all is_digit s)"

definition py_int :: "string \<Rightarrow> error + int" where
  "py_int s = (if is_digits s then Inr (dec_val s) else Inl ValueError)"

fun map_err :: "('a \<Rightarrow> error + 'b) \<Rightarrow> 'a list \<Rightarrow> error + 'b list" where
  "map_err f [] = Inr []"
| "map_err f (x # xs) =
     (case f x of Inl e \<Rightarrow> Inl e
      | Inr y \<Rightarrow> (case map_err f xs of Inl e \<Rightarrow> Inl e | Inr ys \<Rightarrow> Inr (y # ys)))"

text \<open>\<open>str(n)\<close> for an integer and the format \<open>{:02X}\<close>.\<close>

definition dec_char :: "nat \<Rightarrow> char" where
  "dec_char d = ''0123456789'' ! d"

definition hex_char :: "nat \<Rightarrow> char" where
  "hex_char d = ''0123456789ABCDEF'' ! d"

fun dec_nat :: "nat \<Rightarrow> string" where
  "dec_nat n = (if n < 10 then [dec_char n] else dec_nat (n div 10) @ [dec_char (n mod 10)])"

fun hex_nat :: "nat \<Rightarrow> string" where
  "hex_nat n = (if n < 16 then [hex_char n] else hex_nat (n div 16) @ [hex_char (n mod 16)])"

declare dec_nat.simps [simp del] hex_nat.simps [simp del]

definition py_str :: "int \<Rightarrow> string" where
  "py_str i = (if i < 0 then CHR ''-'' # dec_nat (nat (- i)) else dec_nat (nat i))"

definition fmt_02X :: "int \<Rightarrow> string" where
  "fmt_02X i =
     (if i < 0 then CHR ''-'' # hex_nat (nat (- i))
      else replicate (2 - length (hex_nat (nat i))) CHR ''0'' @ hex_nat (nat i))"

section \<open>Regular expressions\<close>

text \<open>
  The patterns of the source use literal characters, the classes \<open>\d\<close>, \<open>\w\<close> and
  \<open>.\<close>, the greedy quantifiers \<open>+\<close> and \<open>*\<close> on a single class, and groups that are
  not nested. A pattern is the list of these items in the order they are written.
  \<open>re_match\<close> is \<open>pattern.match(line)\<close>: it matches at the start of the line, a
  quantifier takes the longest run first and gives characters back one at a time when
  the rest of the pattern fails. The result has one piece of text for each item.
\<close>

datatype cls = Lit char | Digit | Word | Dot

datatype tok = One cls | Plus cls | Star cls | Open string | Close

fun in_cls :: "cls \<Rightarrow> char \<Rightarrow> bool" where
  "in_cls (Lit a) c = (c = a)"
| "in_cls Digit c = is_digit c"
| "in_cls Word c = is_word c"
| "in_cls Dot c = (c \<noteq> CHR 0x0A)"

fun cons_hd :: "char \<Rightarrow> string list \<Rightarrow> string list" where
  "cons_hd c [] = [[c]]"
| "cons_hd c (p # ps) = (c # p) # ps"

fun re_match :: "tok list \<Rightarrow> string \<Rightarrow> string list option" where
  "re_match [] s = Some []"
| "re_match (Open n # ts) s = map_option (Cons []) (re_match ts s)"
| "re_match (Close # ts) s = map_option (Cons []) (re_match ts s)"
| "re_match (One k # ts) [] = None"
| "re_match (One k # ts) (c # cs) =
     (if in_cls k c then map_option (Cons [c]) (re_match ts cs) else None)"
| "re_match (Plus k # ts) [] = None"
| "re_match (Plus k # ts) (c # cs) =
     (if in_cls k c then map_option (cons_hd c) (re_match (Star k # ts) cs) else None)"
| "re_match (Star k # ts) [] = map_option (Cons []) (re_match ts [])"
| "re_match (Star k # ts) (c # cs) =
     (if in_cls k c then
        (case re_match (Star k # ts) cs of
           Some ps \<Rightarrow> Some (cons_hd c ps)
         | None \<Rightarrow> map_option (Cons []) (re_match ts (c # cs)))
      else map_option (Cons []) (re_match ts (c # cs)))"

text \<open>\<open>match.group()\<close>, the whole matched text, and \<open>match.group(name)\<close>.\<close>

definition group0 :: "string list \<Rightarrow> string" where
  "group0 ps = concat ps"

fun group_text :: "tok list \<Rightarrow> string list \<Rightarrow> string" where
  "group_text (Close # ts) ps = []"
| "group_text (t # ts) (p # ps) = p @ group_text ts ps"
| "group_text ts ps = []"

fun group :: "string \<Rightarrow> tok list \<Rightarrow> string list \<Rightarrow> string" where
  "group n (t # ts) (p # ps) = (if t = Open n then group_text ts ps else group n ts ps)"
| "group n ts ps = []"

definition lit :: "string \<Rightarrow> tok list" where
  "lit s = map (\<lambda>c. One (Lit c)) s"

section \<open>The sensor reading: \<open>LaCrosseSensor\<close>\<close>

text \<open>\<open>re_reading\<close>: the text \<open>OK\<close> and 21 groups \<open>(\d+)\<close>, each after one space.\<close>

definition re_reading :: "tok list" where
  "re_reading =
     lit ''OK '' @ [Open [], Plus Digit, Close] @
     concat (replicate 20 (lit '' '' @ [Open [], Plus Digit, Close]))"

definition bind :: "error + 'a \<Rightarrow> ('a \<Rightarrow> error + 'b) \<Rightarrow> error + 'b" where
  "bind m f = (case m of Inl e \<Rightarrow> Inl e | Inr x \<Rightarrow> f x)"

text \<open>\<open>(data[i] * 16777216) + (data[j] * 65536) + (data[k] * 256) + data[l]\<close> and
  \<open>(data[i] * 256) + data[j]\<close>, the indexing evaluated from left to right.\<close>

definition be4 :: "int list \<Rightarrow> nat \<Rightarrow> nat \<Rightarrow> nat \<Rightarrow> nat \<Rightarrow> error + int" where
  "be4 data i j k l =
     bind (py_index data i) (\<lambda>a. bind (py_index data j) (\<lambda>b.
     bind (py_index data k) (\<lambda>c. bind (py_index data l) (\<lambda>d.
       Inr ((a * 16777216) + (b * 65536) + (c * 256) + d)))))"

definition be2 :: "int list \<Rightarrow> nat \<Rightarrow> nat \<Rightarrow> error + int" where
  "be2 data i j =
     bind (py_index data i) (\<lambda>a. bind (py_index data j) (\<lambda>b. Inr ((a * 256) + b)))"

text \<open>\<open>LaCrosseSensor._parse\<close>: the attributes are assigned in the order of the
  source; without a match the object is returned as it was.\<close>

definition LaCrosseSensor_parse :: "obj \<Rightarrow> string \<Rightarrow> error + obj" where
  "LaCrosseSensor_parse self line =
     (case re_match re_reading line of
        None \<Rightarrow> Inr self
      | Some m \<Rightarrow>
          bind (map_err py_int (drop 1 (py_split (group0 m)))) (\<lambda>data.
          bind (py_index data 0) (\<lambda>t.
          bind (py_index data 1) (\<lambda>i1.
          bind (py_index data 2) (\<lambda>i2.
          bind (be4 data 3 4 5 6) (\<lambda>ontime.
          bind (be4 data 7 8 9 10) (\<lambda>totaltime.
          bind (be4 data 11 12 13 14) (\<lambda>energy.
          bind (be2 data 15 16) (\<lambda>power.
          bind (be2 data 17 18) (\<lambda>maxpower.
          bind (py_index data 19) (\<lambda>resets.
            Inr (setattr ''resets'' (PInt resets)
                (setattr ''maxpower'' (PInt maxpower)
                (setattr ''power'' (PInt power)
                (setattr ''energy'' (PInt energy)
                (setattr ''totaltime'' (PInt totaltime)
                (setattr ''ontime'' (PInt ontime)
                (setattr ''sensorid'' (PStr (concat (map fmt_02X [i1, i2])))
                (setattr ''sensortype'' (PInt t) self)))))))))))))))))))"

text \<open>\<open>LaCrosseSensor(line)\<close>: a new object; \<open>if line:\<close> holds for a string that is
  not empty, and not for \<open>None\<close>.\<close>

definition LaCrosseSensor_init :: "string option \<Rightarrow> error + obj" where
  "LaCrosseSensor_init line =
     (case line of
        None \<Rightarrow> Inr []
      | Some l \<Rightarrow> if l \<noteq> [] then LaCrosseSensor_parse [] l else Inr [])"

section \<open>The device information: \<open>LaCrosseGateway._parse_info\<close>\<close>

definition re_info :: "tok list" where
  "re_info =
     lit ''['' @ [Open ''name'', Plus Word, One (Lit CHR ''.''), Plus Word, Close] @
     [One Dot] @ [Open ''ver'', Star Dot, Close] @ lit '' '' @
     lit ''(1='' @ [Open ''rfm1name'', Plus Word, Close] @ lit '' '' @
     [Open [], Plus Word, Close] @ lit '':'' @ [Open ''rfm1freq'', Plus Digit, Close] @ lit '' '' @
     [Open ''rfm1mode'', Star Dot, Close] @ lit '') {IP='' @
     [Open ''address'', Star Dot, Close] @ lit ''}]''"

text \<open>The dictionary \<open>info\<close> has the same eight keys on every path; \<open>None\<close> is
  Python's \<open>None\<close>.\<close>

record info =
  name :: "string option"
  version :: "string option"
  address :: "string option"
  rfm1name :: "string option"
  rfm1frequency :: "string option"
  rfm1datarate :: "string option"
  rfm1toggleinterval :: "string option"
  rfm1togglemask :: "string option"

definition parse_info :: "string \<Rightarrow> error + info" where
  "parse_info line =
     (let info = \<lparr>name = None, version = None, address = None, rfm1name = None,
                   rfm1frequency = None, rfm1datarate = None, rfm1toggleinterval = None,
                   rfm1togglemask = None\<rparr>
      in case re_match re_info line of
           None \<Rightarrow> Inr info
         | Some m \<Rightarrow>
            (let info = info\<lparr>name := Some (group ''name'' re_info m)\<rparr>;
                 info = info\<lparr>version := Some (group ''ver'' re_info m)\<rparr>;
                 info = info\<lparr>address := Some (group ''address'' re_info m)\<rparr>;
                 info = info\<lparr>rfm1name := Some (group ''rfm1name'' re_info m)\<rparr>;
                 info = info\<lparr>rfm1frequency := Some (group ''rfm1freq'' re_info m)\<rparr>;
                 values = split_on CHR '':'' (group ''rfm1mode'' re_info m)
             in bind (py_index values 0) (\<lambda>v0.
                  if v0 = ''r'' then
                    bind (py_index values 1) (\<lambda>v1. Inr (info\<lparr>rfm1datarate := Some v1\<rparr>))
                  else if v0 = ''t'' then
                    bind (py_index values 1) (\<lambda>v1.
                      let toggle = split_on CHR ''~'' v1
                      in bind (py_index toggle 0) (\<lambda>t0.
                         bind (py_index toggle 1) (\<lambda>t1.
                           Inr (info\<lparr>rfm1toggleinterval := Some t0,
                                     rfm1togglemask := Some t1\<rparr>))))
                  else Inr info)))"

section \<open>The session: \<open>LaCrosseGateway\<close>\<close>

text \<open>
  The socket keeps what was passed to \<open>sendall\<close>, in order. What \<open>recv\<close> returns is
  given from outside as a sequence of chunks of decoded text, \<open>rx\<close>, read at a position
  that advances by one at each call. A callback is a name of type \<open>'cb\<close>; calling it
  adds an entry to \<open>calls\<close> (the callback, the sensor object and the user data it was
  called with), and the callback returns normally without touching the session. The
  thread object is a number; \<open>running\<close> lists the threads that have not ended.

  The socket is absent (never connected), open or closed; a connection or a send that
  fails in the network, and the decoding of the received bytes, are not modelled. The
  dictionaries \<open>sensors\<close> and \<open>_registry\<close> are class attributes, shared by the
  sessions of a process: the model follows one session, the first one.
\<close>

record socket =
  is_closed :: bool
  sent :: "string list"

record ('cb, 'ud) gateway =
  host :: string
  port :: int
  sensors :: "(pyval \<times> obj) list"
  registry :: "(pyval \<times> ('cb \<times> 'ud option) list) list"
  callback :: "'cb option"
  callback_data :: "'ud option"
  sock :: "socket option"
  stopevent :: "bool option"
  thread :: "nat option"
  running :: "nat list"
  spawned :: nat
  calls :: "('cb \<times> obj \<times> 'ud option) list"

definition LaCrosseGateway_init :: "string \<Rightarrow> int \<Rightarrow> ('cb, 'ud) gateway" where
  "LaCrosseGateway_init h p =
     \<lparr>host = h, port = p, sensors = [], registry = [], callback = None, callback_data = None,
      sock = None, stopevent = None, thread = None, running = [], spawned = 0, calls = []\<rparr>"

definition connect :: "('cb, 'ud) gateway \<Rightarrow> ('cb, 'ud) gateway" where
  "connect g = g\<lparr>sock := Some \<lparr>is_closed = False, sent = []\<rparr>\<rparr>"

definition write_cmd :: "('cb, 'ud) gateway \<Rightarrow> string \<Rightarrow> error + ('cb, 'ud) gateway" where
  "write_cmd g cmd =
     (case sock g of
        None \<Rightarrow> Inl AttributeError
      | Some s \<Rightarrow>
          if is_closed s then Inl OSError
          else Inr (g\<lparr>sock := Some (s\<lparr>sent := sent s @ [cmd @ [CHR 0x0D, CHR 0x0A]]\<rparr>)\<rparr>))"


definition led_mode_state :: "('cb, 'ud) gateway \<Rightarrow> bool \<Rightarrow> error + ('cb, 'ud) gateway" where
  "led_mode_state g state = write_cmd g (py_str (if state then 1 else 0) @ ''a'')"





subsection \<open>\<open>get_info\<close>\<close>

definition re_brackets :: "tok list" where
  "re_brackets = lit ''['' @ [Star Dot] @ lit '']''"

definition recv_line :: "(nat \<Rightarrow> string) \<Rightarrow> nat \<Rightarrow> string" where
  "recv_line rx pos = py_strip [CHR 0x0D, CHR 0x0A] (rx pos)"

text \<open>The loop \<open>for x in range(10)\<close>, with the number of rounds left: it returns from
  \<open>get_info\<close> at the first line in brackets (\<open>Some\<close>), or ends after ten reads.\<close>

fun get_info_for :: "nat \<Rightarrow> (nat \<Rightarrow> string) \<Rightarrow> nat \<Rightarrow> (error + info) option \<times> nat" where
  "get_info_for 0 rx pos = (None, pos)"
| "get_info_for (Suc n) rx pos =
     (if re_match re_brackets (recv_line rx pos) \<noteq> None
      then (Some (parse_info (recv_line rx pos)), Suc pos)
      else get_info_for n rx (Suc pos))"

text \<open>The loop \<open>while True\<close>: \<open>None\<close> is the call that never returns. The result is
  what \<open>get_info\<close> returns or raises, the session and the read position.\<close>

partial_function (option) get_info ::
  "('cb, 'ud) gateway \<Rightarrow> (nat \<Rightarrow> string) \<Rightarrow> nat \<Rightarrow> ((error + info) \<times> ('cb, 'ud) gateway \<times> nat) option"
where
  "get_info g rx pos =
     (case write_cmd g ''v'' of
        Inl e \<Rightarrow> Some (Inl e, g, pos)
      | Inr g1 \<Rightarrow>
          (case get_info_for 10 rx pos of
             (Some r, pos1) \<Rightarrow> Some (r, g1, pos1)
           | (None, pos1) \<Rightarrow> get_info g1 rx pos1))"

subsection \<open>The worker thread and the callbacks\<close>

definition start_worker :: "('cb, 'ud) gateway \<Rightarrow> ('cb, 'ud) gateway" where
  "start_worker g =
     (if thread g \<noteq> None then g
      else g\<lparr>stopevent := Some False, thread := Some (spawned g),
             running := running g @ [spawned g], spawned := Suc (spawned g)\<rparr>)"

definition start_scan :: "('cb, 'ud) gateway \<Rightarrow> ('cb, 'ud) gateway" where
  "start_scan g = start_worker g"

text \<open>\<open>_stop_worker\<close>, in the state where \<open>join\<close> has returned: the thread has ended.\<close>

definition stop_worker :: "('cb, 'ud) gateway \<Rightarrow> ('cb, 'ud) gateway" where
  "stop_worker g =
     (let g1 = (if stopevent g \<noteq> None then g\<lparr>stopevent := Some True\<rparr> else g)
      in case thread g1 of
           None \<Rightarrow> g1
         | Some t \<Rightarrow> g1\<lparr>running := removeAll t (running g1)\<rparr>)"

definition close :: "('cb, 'ud) gateway \<Rightarrow> error + ('cb, 'ud) gateway" where
  "close g =
     (let g1 = stop_worker g
      in case sock g1 of
           None \<Rightarrow> Inl AttributeError
         | Some s \<Rightarrow> Inr (g1\<lparr>sock := Some (s\<lparr>is_closed := True\<rparr>)\<rparr>))"

text \<open>A thread ends by itself when its loop sees the stop event or raises.\<close>

definition worker_exit :: "('cb, 'ud) gateway \<Rightarrow> nat \<Rightarrow> ('cb, 'ud) gateway" where
  "worker_exit g t = g\<lparr>running := removeAll t (running g)\<rparr>"

definition register_callback ::
  "('cb, 'ud) gateway \<Rightarrow> pyval \<Rightarrow> 'cb \<Rightarrow> 'ud option \<Rightarrow> ('cb, 'ud) gateway" where
  "register_callback g sensorid cb user_data =
     (let g1 = (if map_of (registry g) sensorid = None
                then g\<lparr>registry := AList.update sensorid [] (registry g)\<rparr> else g)
      in g1\<lparr>registry := AList.update sensorid
                (the (map_of (registry g1) sensorid) @ [(cb, user_data)]) (registry g1)\<rparr>)"

definition register_all :: "('cb, 'ud) gateway \<Rightarrow> 'cb \<Rightarrow> 'ud option \<Rightarrow> ('cb, 'ud) gateway" where
  "register_all g cb user_data = g\<lparr>callback := Some cb, callback_data := user_data\<rparr>"

definition call :: "('cb, 'ud) gateway \<Rightarrow> 'cb \<Rightarrow> obj \<Rightarrow> 'ud option \<Rightarrow> ('cb, 'ud) gateway" where
  "call g cb sensor user_data = g\<lparr>calls := calls g @ [(cb, sensor, user_data)]\<rparr>"

text \<open>One round of the loop of \<open>_refresh\<close>, on the chunk \<open>recv\<close> returned.\<close>

definition refresh_step :: "('cb, 'ud) gateway \<Rightarrow> string \<Rightarrow> error + ('cb, 'ud) gateway" where
  "refresh_step g chunk =
     (let line = py_strip [CHR 0x0D, CHR 0x0A] chunk
      in if re_match re_reading line \<noteq> None then
           bind (LaCrosseSensor_init (Some line)) (\<lambda>sensor.
           bind (getattr sensor ''sensorid'') (\<lambda>sid.
             let g1 = g\<lparr>sensors := AList.update sid sensor (sensors g)\<rparr>;
                 g2 = (case callback g1 of
                         None \<Rightarrow> g1
                       | Some cb \<Rightarrow> call g1 cb sensor (callback_data g1))
             in bind (getattr sensor ''sensorid'') (\<lambda>sid2.
                  case map_of (registry g2) sid2 of
                    None \<Rightarrow> Inr g2
                  | Some cbs \<Rightarrow> Inr (foldl (\<lambda>g' cbs. call g' (fst cbs) sensor (snd cbs)) g2 cbs))))
         else Inr g)"

text \<open>\<open>_refresh\<close> on the chunks it receives: the loop ends when the stop event is set.\<close>

fun refresh :: "('cb, 'ud) gateway \<Rightarrow> string list \<Rightarrow> error + ('cb, 'ud) gateway" where
  "refresh g [] = Inr g"
| "refresh g (chunk # chunks) =
     (case stopevent g of
        None \<Rightarrow> Inl AttributeError
      | Some True \<Rightarrow> Inr g
      | Some False \<Rightarrow> bind (refresh_step g chunk) (\<lambda>g1. refresh g1 chunks))"

section \<open>Descriptions used in the statements\<close>










text \<open>The result of \<open>_parse_info\<close> when the pattern does not match; the texts of the
  six named groups a line gives when it does; and the dictionary with the five entries
  that are filled from them.\<close>

definition no_info :: info where
  "no_info =
     \<lparr>name = None, version = None, address = None, rfm1name = None, rfm1frequency = None,
      rfm1datarate = None, rfm1toggleinterval = None, rfm1togglemask = None\<rparr>"

definition info_groups :: "string \<Rightarrow> string list option" where
  "info_groups line =
     map_option (\<lambda>m. map (\<lambda>n. group n re_info m)
                   [''name'', ''ver'', ''address'', ''rfm1name'', ''rfm1freq'', ''rfm1mode''])
       (re_match re_info line)"

definition filled_info :: "string \<Rightarrow> string \<Rightarrow> string \<Rightarrow> string \<Rightarrow> string \<Rightarrow> info" where
  "filled_info nm ver addr rn rf =
     \<lparr>name = Some nm, version = Some ver, address = Some addr, rfm1name = Some rn,
      rfm1frequency = Some rf, rfm1datarate = None, rfm1toggleinterval = None,
      rfm1togglemask = None\<rparr>"






text \<open>The states a session goes through: the calls of its owner that return and the
  steps of its worker.\<close>

inductive reachable :: "('cb, 'ud) gateway \<Rightarrow> bool" where
  r_init: "reachable (LaCrosseGateway_init h p)"
| r_connect: "reachable g \<Longrightarrow> reachable (connect g)"
| r_start_scan: "reachable g \<Longrightarrow> reachable (start_scan g)"
| r_close: "reachable g \<Longrightarrow> close g = Inr g' \<Longrightarrow> reachable g'"
| r_write_cmd: "reachable g \<Longrightarrow> write_cmd g cmd = Inr g' \<Longrightarrow> reachable g'"
| r_register_callback: "reachable g \<Longrightarrow> reachable (register_callback g sensorid cb user_data)"
| r_register_all: "reachable g \<Longrightarrow> reachable (register_all g cb user_data)"
| r_refresh_step: "reachable g \<Longrightarrow> refresh_step g chunk = Inr g' \<Longrightarrow> reachable g'"
| r_worker_exit: "reachable g \<Longrightarrow> reachable (worker_exit g t)"

text \<open>The invariant of the thread bookkeeping: no thread runs, or the only one that
  runs is the one the session holds.\<close>

definition one_worker :: "('cb, 'ud) gateway \<Rightarrow> bool" where
  "one_worker g = (running g = [] \<or> (thread g \<noteq> None \<and> running g = [the (thread g)]))"

text \<open>The attributes of a reading.\<close>

definition reading_attrs :: "string list" where
  "reading_attrs =
     [''sensortype'', ''sensorid'', ''ontime'', ''totaltime'', ''energy'', ''power'',
      ''maxpower'', ''resets'']"

section \<open>Matching\<close>





lemma is_digit_space [simp]: "\<not> is_digit CHR '' ''"
  by (simp add: is_digit_def)




lemma py_split_Nil [simp]: "py_split [] = []"
  by (simp add: py_split.simps)



lemma is_space_space [simp]: "is_space CHR '' ''"
  by (simp add: is_space_def)


















lemma split_on_ne: "split_on sep s \<noteq> []"
  by (induction s) (auto split: list.splits)









section \<open>Decoding a reading\<close>




section \<open>Lines that are not readings\<close>




section \<open>An object built without a match\<close>

text \<open>
  Claim C10. Built from no line, or from a line the pattern does not match, the
  sensor object is returned without any error and has no attribute: reading any of the
  eight attributes of a reading raises \<open>AttributeError\<close>.
\<close>

theorem init_without_match:
  assumes "case line of None \<Rightarrow> True | Some l \<Rightarrow> re_match re_reading l = None"
  shows "LaCrosseSensor_init line = Inr [] \<and>
         list_all (\<lambda>a. getattr [] a = Inl AttributeError) reading_attrs"
  using assms
  by (auto simp: LaCrosseSensor_init_def LaCrosseSensor_parse_def getattr_def reading_attrs_def
      split: option.splits)

theorem init_without_match_witness:
  "(case Some ''OK 9 248 1 4 150 106'' of None \<Rightarrow> True | Some l \<Rightarrow> re_match re_reading l = None) \<and>
   LaCrosseSensor_init (Some ''OK 9 248 1 4 150 106'') = Inr [] \<and>
   LaCrosseSensor_init None = Inr [] \<and>
   list_all (\<lambda>a. getattr [] a = Inl AttributeError) reading_attrs"
proof -
  have h: "case Some ''OK 9 248 1 4 150 106'' of None \<Rightarrow> True | Some l \<Rightarrow> re_match re_reading l = None"
    by code_simp
  have n: "case (None :: string option) of None \<Rightarrow> True | Some l \<Rightarrow> re_match re_reading l = None"
    by simp
  from init_without_match [OF h] init_without_match [OF n] h show ?thesis by blast
qed

section \<open>Device information\<close>

text \<open>
  Claim C3. When the pattern matches and the text of the mode group, cut at every
  colon, starts with a mode and a value: for the mode \<open>r\<close> the data rate is the value
  and the two toggle entries stay \<open>None\<close>; for the mode \<open>t\<close>, when the value cut at
  every \<open>~\<close> starts with an interval and a mask, these are the two toggle entries and
  the data rate stays \<open>None\<close>. The other five entries are the texts of their groups.
\<close>

theorem parse_info_mode:
  assumes "info_groups line = Some [nm, ver, addr, rn, rf, md]"
    and "split_on CHR '':'' md = mode # val # extra"
  shows "(mode = ''r'' \<longrightarrow>
            parse_info line = Inr ((filled_info nm ver addr rn rf)\<lparr>rfm1datarate := Some val\<rparr>)) \<and>
         (mode = ''t'' \<longrightarrow>
            (\<forall>interval mask extra'.
               split_on CHR ''~'' val = interval # mask # extra' \<longrightarrow>
               parse_info line = Inr ((filled_info nm ver addr rn rf)
                                        \<lparr>rfm1toggleinterval := Some interval,
                                         rfm1togglemask := Some mask\<rparr>)))"
proof -
  from assms(1) obtain m where m: "re_match re_info line = Some m"
    and g: "group ''name'' re_info m = nm" "group ''ver'' re_info m = ver"
      "group ''address'' re_info m = addr" "group ''rfm1name'' re_info m = rn"
      "group ''rfm1freq'' re_info m = rf" "group ''rfm1mode'' re_info m = md"
    by (auto simp: info_groups_def)
  show ?thesis
    unfolding parse_info_def m Let_def option.case g assms(2)
    by (simp add: filled_info_def bind_def py_index_def)
qed

theorem parse_info_mode_witness:
  "info_groups ''[LaCrosseITPlusReader.Gateway.1.35 (1=RFM69 f:868300 r:8) {IP=192.168.178.40}]''
     = Some [''LaCrosseITPlusReader.Gateway'', ''1.35'', ''192.168.178.40'', ''RFM69'', ''868300'', ''r:8''] \<and>
   split_on CHR '':'' ''r:8'' = [''r'', ''8''] \<and>
   parse_info ''[LaCrosseITPlusReader.Gateway.1.35 (1=RFM69 f:868300 r:8) {IP=192.168.178.40}]''
     = Inr \<lparr>name = Some ''LaCrosseITPlusReader.Gateway'', version = Some ''1.35'',
            address = Some ''192.168.178.40'', rfm1name = Some ''RFM69'',
            rfm1frequency = Some ''868300'', rfm1datarate = Some ''8'',
            rfm1toggleinterval = None, rfm1togglemask = None\<rparr> \<and>
   info_groups ''[LaCrosseITPlusReader.Gateway.1.35 (1=RFM69 f:868300 t:10~3) {IP=192.168.178.40}]''
     = Some [''LaCrosseITPlusReader.Gateway'', ''1.35'', ''192.168.178.40'', ''RFM69'', ''868300'', ''t:10~3''] \<and>
   split_on CHR '':'' ''t:10~3'' = [''t'', ''10~3''] \<and>
   split_on CHR ''~'' ''10~3'' = [''10'', ''3''] \<and>
   parse_info ''[LaCrosseITPlusReader.Gateway.1.35 (1=RFM69 f:868300 t:10~3) {IP=192.168.178.40}]''
     = Inr \<lparr>name = Some ''LaCrosseITPlusReader.Gateway'', version = Some ''1.35'',
            address = Some ''192.168.178.40'', rfm1name = Some ''RFM69'',
            rfm1frequency = Some ''868300'', rfm1datarate = None,
            rfm1toggleinterval = Some ''10'', rfm1togglemask = Some ''3''\<rparr>"
proof -
  have r1: "info_groups ''[LaCrosseITPlusReader.Gateway.1.35 (1=RFM69 f:868300 r:8) {IP=192.168.178.40}]''
     = Some [''LaCrosseITPlusReader.Gateway'', ''1.35'', ''192.168.178.40'', ''RFM69'', ''868300'', ''r:8'']"
    by code_simp
  have r2: "split_on CHR '':'' ''r:8'' = ''r'' # ''8'' # []" by simp
  have t1: "info_groups ''[LaCrosseITPlusReader.Gateway.1.35 (1=RFM69 f:868300 t:10~3) {IP=192.168.178.40}]''
     = Some [''LaCrosseITPlusReader.Gateway'', ''1.35'', ''192.168.178.40'', ''RFM69'', ''868300'', ''t:10~3'']"
    by code_simp
  have t2: "split_on CHR '':'' ''t:10~3'' = ''t'' # ''10~3'' # []" by simp
  have t3: "split_on CHR ''~'' ''10~3'' = ''10'' # ''3'' # []" by simp
  have a: "parse_info ''[LaCrosseITPlusReader.Gateway.1.35 (1=RFM69 f:868300 r:8) {IP=192.168.178.40}]''
     = Inr \<lparr>name = Some ''LaCrosseITPlusReader.Gateway'', version = Some ''1.35'',
            address = Some ''192.168.178.40'', rfm1name = Some ''RFM69'',
            rfm1frequency = Some ''868300'', rfm1datarate = Some ''8'',
            rfm1toggleinterval = None, rfm1togglemask = None\<rparr>"
    using parse_info_mode [OF r1 r2] by (simp add: filled_info_def)
  have b: "parse_info ''[LaCrosseITPlusReader.Gateway.1.35 (1=RFM69 f:868300 t:10~3) {IP=192.168.178.40}]''
     = Inr \<lparr>name = Some ''LaCrosseITPlusReader.Gateway'', version = Some ''1.35'',
            address = Some ''192.168.178.40'', rfm1name = Some ''RFM69'',
            rfm1frequency = Some ''868300'', rfm1datarate = None,
            rfm1toggleinterval = Some ''10'', rfm1togglemask = Some ''3''\<rparr>"
    using parse_info_mode [OF t1 t2] t3 by (simp add: filled_info_def)
  from r1 r2 t1 t2 t3 a b show ?thesis by blast
qed

text \<open>
  Claim C5, as the code has it. When the pattern does not match, every entry of the
  result is \<open>None\<close>. When it matches and the mode is neither \<open>r\<close> nor \<open>t\<close>, the three
  entries that depend on the mode are \<open>None\<close> and the other five are filled from the
  line.
\<close>

theorem parse_info_unmatched:
  "(info_groups line = None \<longrightarrow> parse_info line = Inr no_info) \<and>
   (\<forall>nm ver addr rn rf md.
      info_groups line = Some [nm, ver, addr, rn, rf, md] \<and>
      hd (split_on CHR '':'' md) \<noteq> ''r'' \<and> hd (split_on CHR '':'' md) \<noteq> ''t'' \<longrightarrow>
      parse_info line = Inr (filled_info nm ver addr rn rf))"
proof (intro conjI allI impI)
  assume "info_groups line = None"
  then have "re_match re_info line = None" by (simp add: info_groups_def)
  then show "parse_info line = Inr no_info"
    by (simp add: parse_info_def no_info_def)
next
  fix nm ver addr rn rf md
  assume a: "info_groups line = Some [nm, ver, addr, rn, rf, md] \<and>
      hd (split_on CHR '':'' md) \<noteq> ''r'' \<and> hd (split_on CHR '':'' md) \<noteq> ''t''"
  then obtain m where m: "re_match re_info line = Some m"
    and g: "group ''name'' re_info m = nm" "group ''ver'' re_info m = ver"
      "group ''address'' re_info m = addr" "group ''rfm1name'' re_info m = rn"
      "group ''rfm1freq'' re_info m = rf" "group ''rfm1mode'' re_info m = md"
    by (auto simp: info_groups_def)
  have i: "py_index (split_on CHR '':'' md) 0 = Inr (hd (split_on CHR '':'' md))"
    using split_on_ne [of "CHR '':''" md] by (simp add: py_index_def hd_conv_nth)
  show "parse_info line = Inr (filled_info nm ver addr rn rf)"
    unfolding parse_info_def m Let_def option.case g i
    using a by (simp add: filled_info_def bind_def)
qed

theorem parse_info_unmatched_witness:
  "info_groups ''[LaCrosseITPlusReader.10.1s (RFM12B f:0 r:17241)]'' = None \<and>
   parse_info ''[LaCrosseITPlusReader.10.1s (RFM12B f:0 r:17241)]'' = Inr no_info \<and>
   info_groups ''[LaCrosseITPlusReader.Gateway.1.35 (1=RFM69 f:868300 x:8) {IP=192.168.178.40}]''
     = Some [''LaCrosseITPlusReader.Gateway'', ''1.35'', ''192.168.178.40'', ''RFM69'', ''868300'', ''x:8''] \<and>
   hd (split_on CHR '':'' ''x:8'') = ''x'' \<and>
   parse_info ''[LaCrosseITPlusReader.Gateway.1.35 (1=RFM69 f:868300 x:8) {IP=192.168.178.40}]''
     = Inr (filled_info ''LaCrosseITPlusReader.Gateway'' ''1.35'' ''192.168.178.40'' ''RFM69'' ''868300'')"
proof -
  have n: "info_groups ''[LaCrosseITPlusReader.10.1s (RFM12B f:0 r:17241)]'' = None"
    by code_simp
  have x: "info_groups ''[LaCrosseITPlusReader.Gateway.1.35 (1=RFM69 f:868300 x:8) {IP=192.168.178.40}]''
     = Some [''LaCrosseITPlusReader.Gateway'', ''1.35'', ''192.168.178.40'', ''RFM69'', ''868300'', ''x:8'']"
    by code_simp
  have h: "hd (split_on CHR '':'' ''x:8'') = ''x''" by simp
  have a: "parse_info ''[LaCrosseITPlusReader.10.1s (RFM12B f:0 r:17241)]'' = Inr no_info"
    using parse_info_unmatched [of "''[LaCrosseITPlusReader.10.1s (RFM12B f:0 r:17241)]''"] n
    by blast
  have b: "parse_info ''[LaCrosseITPlusReader.Gateway.1.35 (1=RFM69 f:868300 x:8) {IP=192.168.178.40}]''
     = Inr (filled_info ''LaCrosseITPlusReader.Gateway'' ''1.35'' ''192.168.178.40'' ''RFM69'' ''868300'')"
    using parse_info_unmatched [of "''[LaCrosseITPlusReader.Gateway.1.35 (1=RFM69 f:868300 x:8) {IP=192.168.178.40}]''"] x h
    by simp
  from n x h a b show ?thesis by blast
qed

text \<open>With a mode that is neither \<open>r\<close> nor \<open>t\<close> the result is not empty.\<close>

theorem unknown_mode_keeps_fields:
  "parse_info ''[LaCrosseITPlusReader.Gateway.1.35 (1=RFM69 f:868300 x:8) {IP=192.168.178.40}]''
     = Inr \<lparr>name = Some ''LaCrosseITPlusReader.Gateway'', version = Some ''1.35'',
            address = Some ''192.168.178.40'', rfm1name = Some ''RFM69'',
            rfm1frequency = Some ''868300'', rfm1datarate = None,
            rfm1toggleinterval = None, rfm1togglemask = None\<rparr> \<and>
   parse_info ''[LaCrosseITPlusReader.Gateway.1.35 (1=RFM69 f:868300 x:8) {IP=192.168.178.40}]''
     \<noteq> Inr no_info"
  by code_simp

text \<open>A mode without a value, or a toggle value without \<open>~\<close>, is indexed out of
  range: the call raises \<open>IndexError\<close>.\<close>

lemma mode_without_value_raises:
  "parse_info ''[LaCrosseITPlusReader.Gateway.1.35 (1=RFM69 f:868300 r) {IP=192.168.178.40}]''
     = Inl IndexError \<and>
   parse_info ''[LaCrosseITPlusReader.Gateway.1.35 (1=RFM69 f:868300 t:10) {IP=192.168.178.40}]''
     = Inl IndexError"
  by code_simp

text \<open>
  Claim C9 on two lines without the address part, the first of them the first example
  of the docstring of \<open>_parse_info\<close>: the pattern requires \<open>{IP=...}\<close> (and \<open>1=\<close>), so
  neither matches and every entry of the result is \<open>None\<close>, also the name and the
  version.
\<close>

theorem info_without_address_not_parsed:
  "parse_info ''[LaCrosseITPlusReader.10.1s (RFM12B f:0 r:17241)]'' = Inr no_info \<and>
   parse_info ''[LaCrosseITPlusReader.Gateway.1.35 (1=RFM69 f:868300 r:8)]'' = Inr no_info"
  by code_simp

section \<open>Commands\<close>

lemma write_cmd_open:
  "sock g = Some s \<Longrightarrow> \<not> is_closed s \<Longrightarrow>
   write_cmd g cmd = Inr (g\<lparr>sock := Some (s\<lparr>sent := sent s @ [cmd @ [CHR 0x0D, CHR 0x0A]]\<rparr>)\<rparr>)"
  by (simp add: write_cmd_def)







section \<open>Querying the device information\<close>

lemma get_info_for_none:
  "(\<forall>i<n. re_match re_brackets (recv_line rx (pos + i)) = None) \<Longrightarrow>
   get_info_for n rx pos = (None, pos + n)"
proof (induction n arbitrary: pos)
  case 0
  then show ?case by simp
next
  case (Suc n)
  have "re_match re_brackets (recv_line rx pos) = None" using Suc.prems by force
  moreover have "\<forall>i<n. re_match re_brackets (recv_line rx (Suc pos + i)) = None"
    using Suc.prems by force
  ultimately show ?case using Suc.IH [of "Suc pos"] by simp
qed

lemma get_info_for_found:
  "k < n \<Longrightarrow> (\<forall>i<k. re_match re_brackets (recv_line rx (pos + i)) = None) \<Longrightarrow>
   re_match re_brackets (recv_line rx (pos + k)) \<noteq> None \<Longrightarrow>
   get_info_for n rx pos = (Some (parse_info (recv_line rx (pos + k))), pos + k + 1)"
proof (induction n arbitrary: pos k)
  case 0
  then show ?case by simp
next
  case (Suc n)
  show ?case
  proof (cases k)
    case 0
    then show ?thesis using Suc.prems by simp
  next
    case (Suc j)
    have a: "re_match re_brackets (recv_line rx pos) = None" using Suc.prems(2) Suc by force
    have b: "\<forall>i<j. re_match re_brackets (recv_line rx (Suc pos + i)) = None"
      using Suc.prems(2) Suc by force
    have c: "re_match re_brackets (recv_line rx (Suc pos + j)) \<noteq> None"
      using Suc.prems(3) Suc by simp
    have "j < n" using Suc.prems(1) Suc by simp
    from Suc.IH [OF this b c] a Suc show ?thesis by simp
  qed
qed

text \<open>
  Claim C6. On a connected socket, when the first line in brackets is the line number
  \<open>k\<close> from the read position, \<open>get_info\<close> returns: its result is what \<open>_parse_info\<close>
  gives on that line (the device information when the line parses), the lines up to
  it are consumed, and \<open>v\<close> was sent once at the start and once more after every ten
  reads without a line in brackets.
\<close>

theorem get_info_returns_first:
  assumes "sock g = Some s" and "\<not> is_closed s"
    and "\<forall>i<k. re_match re_brackets (recv_line rx (pos + i)) = None"
    and "re_match re_brackets (recv_line rx (pos + k)) \<noteq> None"
  shows "get_info g rx pos
           = Some (parse_info (recv_line rx (pos + k)),
                   g\<lparr>sock := Some (s\<lparr>sent := sent s @ replicate (k div 10 + 1) (''v'' @ [CHR 0x0D, CHR 0x0A])\<rparr>)\<rparr>,
                   pos + k + 1)"
  using assms
proof (induction k arbitrary: g s pos rule: less_induct)
  case (less k)
  let ?v = "''v'' @ [CHR 0x0D, CHR 0x0A]"
  let ?s1 = "s\<lparr>sent := sent s @ [?v]\<rparr>"
  let ?g1 = "g\<lparr>sock := Some ?s1\<rparr>"
  have w: "write_cmd g ''v'' = Inr ?g1" by (rule write_cmd_open [OF less.prems(1,2)])
  show ?case
  proof (cases "k < 10")
    case True
    have f: "get_info_for 10 rx pos = (Some (parse_info (recv_line rx (pos + k))), pos + k + 1)"
      by (rule get_info_for_found [OF True less.prems(3,4)])
    show ?thesis
      by (subst get_info.simps) (simp add: w f True)
  next
    case False
    have "\<forall>i<10. re_match re_brackets (recv_line rx (pos + i)) = None"
      using less.prems(3) False by simp
    then have f: "get_info_for 10 rx pos = (None, pos + 10)" by (rule get_info_for_none)
    have p1: "sock ?g1 = Some ?s1" "\<not> is_closed ?s1" using less.prems(2) by simp_all
    have p3: "\<forall>i<k - 10. re_match re_brackets (recv_line rx (pos + 10 + i)) = None"
    proof (intro allI impI)
      fix i assume "i < k - 10"
      then have "10 + i < k" using False by simp
      with less.prems(3) have "re_match re_brackets (recv_line rx (pos + (10 + i))) = None" by blast
      then show "re_match re_brackets (recv_line rx (pos + 10 + i)) = None" by (simp add: add.assoc)
    qed
    have p4: "re_match re_brackets (recv_line rx (pos + 10 + (k - 10))) \<noteq> None"
      using less.prems(4) False by simp
    have lt: "k - 10 < k" using False by simp
    have d: "(k - 10) div 10 + 1 = k div 10" 
    proof -
      have "k = (k - 10) + 10" using False by simp
      then have "k div 10 = ((k - 10) + 10) div 10" by simp
      also have "\<dots> = (k - 10) div 10 + 1" by simp
      finally show ?thesis by simp
    qed
    have ih: "get_info ?g1 rx (pos + 10)
          = Some (parse_info (recv_line rx (pos + 10 + (k - 10))),
                  ?g1\<lparr>sock := Some (?s1\<lparr>sent := sent ?s1 @ replicate ((k - 10) div 10 + 1) ?v\<rparr>)\<rparr>,
                  pos + 10 + (k - 10) + 1)"
      by (rule less.IH [OF lt p1 p3 p4])
    have e: "pos + 10 + (k - 10) = pos + k" using False by simp
    have r: "sent s @ [?v] @ replicate (k div 10) ?v = sent s @ replicate (k div 10 + 1) ?v"
      by simp
    have "get_info g rx pos = get_info ?g1 rx (pos + 10)"
      by (subst get_info.simps) (simp add: w f)
    also have "\<dots> = Some (parse_info (recv_line rx (pos + k)),
                   g\<lparr>sock := Some (s\<lparr>sent := sent s @ replicate (k div 10 + 1) ?v\<rparr>)\<rparr>,
                   pos + k + 1)"
      unfolding ih d e using r by simp
    finally show ?thesis .
  qed
qed

theorem get_info_returns_first_witness:
  "sock (connect (LaCrosseGateway_init ''gw'' 81 :: (nat, nat) gateway)) = Some \<lparr>is_closed = False, sent = []\<rparr> \<and>
   \<not> is_closed \<lparr>is_closed = False, sent = []\<rparr> \<and>
   list_all (\<lambda>i. re_match re_brackets (recv_line (\<lambda>i. if i = 11 then ''[LaCrosseITPlusReader.Gateway.1.35 (1=RFM69 f:868300 r:8) {IP=192.168.178.40}]'' @ [CHR 0x0D, CHR 0x0A] else ''OK 9 248 1 4 150 106'' @ [CHR 0x0D, CHR 0x0A]) (0 + i)) = None) [0..<11] \<and>
   re_match re_brackets (recv_line (\<lambda>i. if i = 11 then ''[LaCrosseITPlusReader.Gateway.1.35 (1=RFM69 f:868300 r:8) {IP=192.168.178.40}]'' @ [CHR 0x0D, CHR 0x0A] else ''OK 9 248 1 4 150 106'' @ [CHR 0x0D, CHR 0x0A]) (0 + 11)) \<noteq> None \<and>
   get_info (connect (LaCrosseGateway_init ''gw'' 81 :: (nat, nat) gateway)) (\<lambda>i. if i = 11 then ''[LaCrosseITPlusReader.Gateway.1.35 (1=RFM69 f:868300 r:8) {IP=192.168.178.40}]'' @ [CHR 0x0D, CHR 0x0A] else ''OK 9 248 1 4 150 106'' @ [CHR 0x0D, CHR 0x0A]) 0
     = Some (Inr \<lparr>name = Some ''LaCrosseITPlusReader.Gateway'', version = Some ''1.35'',
                  address = Some ''192.168.178.40'', rfm1name = Some ''RFM69'',
                  rfm1frequency = Some ''868300'', rfm1datarate = Some ''8'',
                  rfm1toggleinterval = None, rfm1togglemask = None\<rparr>,
             (connect (LaCrosseGateway_init ''gw'' 81 :: (nat, nat) gateway))\<lparr>sock := Some \<lparr>is_closed = False,
                                  sent = [''v'' @ [CHR 0x0D, CHR 0x0A], ''v'' @ [CHR 0x0D, CHR 0x0A]]\<rparr>\<rparr>,
             12)"
proof -
  let ?g = "connect (LaCrosseGateway_init ''gw'' 81 :: (nat, nat) gateway)"
  let ?s = "\<lparr>is_closed = False, sent = []\<rparr>"
  let ?crlf = "[CHR 0x0D, CHR 0x0A]"
  let ?A = "''[LaCrosseITPlusReader.Gateway.1.35 (1=RFM69 f:868300 r:8) {IP=192.168.178.40}]'' @ [CHR 0x0D, CHR 0x0A]"
  let ?B = "''OK 9 248 1 4 150 106'' @ [CHR 0x0D, CHR 0x0A]"
  let ?rx = "\<lambda>i::nat. if i = 11 then ?A else ?B"
  have h1: "sock ?g = Some ?s" by (simp add: connect_def)
  have h2: "\<not> is_closed ?s" by simp
  have nb: "re_match re_brackets (py_strip ?crlf ?B) = None" by code_simp
  have yb: "re_match re_brackets (py_strip ?crlf ?A) \<noteq> None" by code_simp
  have pa: "parse_info (py_strip ?crlf ?A) = Inr \<lparr>name = Some ''LaCrosseITPlusReader.Gateway'', version = Some ''1.35'',
                  address = Some ''192.168.178.40'', rfm1name = Some ''RFM69'',
                  rfm1frequency = Some ''868300'', rfm1datarate = Some ''8'',
                  rfm1toggleinterval = None, rfm1togglemask = None\<rparr>"
    by code_simp
  have r_lt: "\<And>i. i < 11 \<Longrightarrow> recv_line ?rx (0 + i) = py_strip ?crlf ?B"
    by (simp add: recv_line_def)
  have r_11: "recv_line ?rx (0 + 11) = py_strip ?crlf ?A"
    by (simp add: recv_line_def)
  have h3: "\<forall>i<11. re_match re_brackets (recv_line ?rx (0 + i)) = None"
  proof (intro allI impI)
    fix i :: nat assume "i < 11"
    then have "recv_line ?rx (0 + i) = py_strip ?crlf ?B" by (rule r_lt)
    then show "re_match re_brackets (recv_line ?rx (0 + i)) = None"
      by (simp only: nb)
  qed
  have h4: "re_match re_brackets (recv_line ?rx (0 + 11)) \<noteq> None"
    unfolding r_11 by (rule yb)
  have "get_info ?g ?rx 0
     = Some (parse_info (recv_line ?rx (0 + 11)),
             ?g\<lparr>sock := Some (?s\<lparr>sent := sent ?s @ replicate (11 div 10 + 1) (''v'' @ ?crlf)\<rparr>)\<rparr>,
             0 + 11 + 1)"
    by (rule get_info_returns_first [OF h1 h2 h3 h4])
  then have "get_info ?g ?rx 0
     = Some (Inr \<lparr>name = Some ''LaCrosseITPlusReader.Gateway'', version = Some ''1.35'',
                  address = Some ''192.168.178.40'', rfm1name = Some ''RFM69'',
                  rfm1frequency = Some ''868300'', rfm1datarate = Some ''8'',
                  rfm1toggleinterval = None, rfm1togglemask = None\<rparr>,
             ?g\<lparr>sock := Some \<lparr>is_closed = False, sent = [''v'' @ ?crlf, ''v'' @ ?crlf]\<rparr>\<rparr>,
             12)"
    unfolding r_11 pa by (simp add: numeral_2_eq_2)
  moreover have "list_all (\<lambda>i. re_match re_brackets (recv_line ?rx (0 + i)) = None) [0..<11]"
    unfolding list_all_iff
  proof (intro ballI)
    fix i :: nat assume "i \<in> set [0..<11]"
    then have "i < 11" by simp
    with h3 show "re_match re_brackets (recv_line ?rx (0 + i)) = None" by blast
  qed
  ultimately show ?thesis using h1 h2 h4 by blast
qed

section \<open>The worker thread\<close>

lemma call_thread [simp]: "thread (call g cb sensor ud) = thread g" "running (call g cb sensor ud) = running g"
  by (simp_all add: call_def)

lemma foldl_call_thread:
  "thread (foldl (\<lambda>g' cbs. call g' (fst cbs) sensor (snd cbs)) g l) = thread g \<and>
   running (foldl (\<lambda>g' cbs. call g' (fst cbs) sensor (snd cbs)) g l) = running g"
  by (induction l arbitrary: g) simp_all

lemma refresh_step_thread:
  assumes "refresh_step g chunk = Inr g'"
  shows "thread g' = thread g \<and> running g' = running g"
  using assms
  by (auto simp: refresh_step_def bind_def Let_def foldl_call_thread
      split: if_splits sum.splits option.splits)

lemma one_worker_start: "one_worker g \<Longrightarrow> one_worker (start_worker g)"
  by (auto simp: one_worker_def start_worker_def)

lemma one_worker_stop: "one_worker g \<Longrightarrow> one_worker (stop_worker g)"
  by (auto simp: one_worker_def stop_worker_def Let_def split: option.splits if_splits)

lemma one_worker_close: "one_worker g \<Longrightarrow> close g = Inr g' \<Longrightarrow> one_worker g'"
  using one_worker_stop [of g]
  by (auto simp: close_def Let_def one_worker_def split: option.splits if_splits)

lemma one_worker_write: "one_worker g \<Longrightarrow> write_cmd g cmd = Inr g' \<Longrightarrow> one_worker g'"
  by (auto simp: write_cmd_def one_worker_def split: option.splits if_splits)

lemma register_callback_thread:
  "thread (register_callback g sensorid cb ud) = thread g \<and>
   running (register_callback g sensorid cb ud) = running g"
  by (simp add: register_callback_def Let_def)

lemma one_worker_register_callback:
  "one_worker g \<Longrightarrow> one_worker (register_callback g sensorid cb ud)"
  unfolding one_worker_def by (simp only: register_callback_thread)

lemma one_worker_exit: "one_worker g \<Longrightarrow> one_worker (worker_exit g t)"
  by (auto simp: worker_exit_def one_worker_def split: if_splits)

lemma reachable_one_worker: "reachable g \<Longrightarrow> one_worker g"
proof (induction rule: reachable.induct)
  case (r_init h p)
  then show ?case by (simp add: one_worker_def LaCrosseGateway_init_def)
next
  case (r_connect g)
  then show ?case by (simp add: one_worker_def connect_def)
next
  case (r_start_scan g)
  then show ?case by (simp add: start_scan_def one_worker_start)
next
  case (r_close g g')
  then show ?case by (blast intro: one_worker_close)
next
  case (r_write_cmd g cmd g')
  then show ?case by (blast intro: one_worker_write)
next
  case (r_register_callback g sensorid cb user_data)
  then show ?case by (simp add: one_worker_register_callback)
next
  case (r_register_all g cb user_data)
  then show ?case by (simp add: one_worker_def register_all_def)
next
  case (r_refresh_step g chunk g')
  then show ?case using refresh_step_thread [of g chunk g'] by (simp add: one_worker_def)
next
  case (r_worker_exit g t)
  then show ?case by (simp add: one_worker_exit)
qed

text \<open>
  Claim C8. In every reachable state of a session at most one thread runs; when the
  session holds a thread, \<open>start_scan\<close> changes nothing, so that calling it twice is
  calling it once and no second thread is started.
\<close>

theorem at_most_one_worker:
  assumes "reachable g"
  shows "length (running g) \<le> 1 \<and>
         (thread g \<noteq> None \<longrightarrow> start_scan g = g) \<and>
         start_scan (start_scan g) = start_scan g \<and>
         length (running (start_scan g)) \<le> 1"
proof -
  have a: "one_worker g" using assms by (rule reachable_one_worker)
  have b: "one_worker (start_scan g)" using a by (simp add: start_scan_def one_worker_start)
  have l: "\<And>x :: ('cb, 'ud) gateway. one_worker x \<Longrightarrow> length (running x) \<le> 1"
    by (auto simp: one_worker_def)
  have c: "thread g \<noteq> None \<longrightarrow> start_scan g = g"
    by (simp add: start_scan_def start_worker_def)
  have d: "start_scan (start_scan g) = start_scan g"
    by (simp add: start_scan_def start_worker_def)
  from l [OF a] l [OF b] c d show ?thesis by blast
qed

theorem at_most_one_worker_witness:
  "reachable (start_scan (connect (LaCrosseGateway_init ''gw'' 81 :: (nat, nat) gateway))) \<and>
   running (start_scan (connect (LaCrosseGateway_init ''gw'' 81 :: (nat, nat) gateway))) = [0] \<and>
   thread (start_scan (connect (LaCrosseGateway_init ''gw'' 81 :: (nat, nat) gateway))) = Some 0 \<and>
   start_scan (start_scan (connect (LaCrosseGateway_init ''gw'' 81 :: (nat, nat) gateway)))
     = start_scan (connect (LaCrosseGateway_init ''gw'' 81)) \<and>
   length (running (start_scan (start_scan (connect (LaCrosseGateway_init ''gw'' 81 :: (nat, nat) gateway))))) \<le> 1"
proof -
  let ?g = "start_scan (connect (LaCrosseGateway_init ''gw'' 81 :: (nat, nat) gateway))"
  have r: "reachable ?g" by (intro r_start_scan r_connect r_init)
  have t: "thread ?g = Some 0" "running ?g = [0]"
    by (simp_all add: start_scan_def start_worker_def connect_def LaCrosseGateway_init_def)
  from at_most_one_worker [OF r] r t show ?thesis by simp
qed

section \<open>Dispatching a reading to the callbacks\<close>










end
